theory Spec2Isabelle
  imports Main "HOL-Library.AList"
begin

section \<open>Values, exceptions and the outside world\<close>

text \<open>
  The token layer of \<^verbatim>\<open>src/utils/auth_middleware.py\<close> is embedded as pure functions that
  pass the state of a \<^verbatim>\<open>TokenManager\<close> explicitly. Everything the Python code obtains
  from outside (the wall clock, the HTTP client, the date and JWT libraries, FastAPI's bearer
  scheme) is a field of an environment record, so that every theorem holds for every behaviour
  of these collaborators that meets its stated hypotheses.

  Times are microseconds since the epoch, the resolution of Python's \<^verbatim>\<open>datetime\<close>.
\<close>

type_synonym time = int

definition minutes :: "int \<Rightarrow> time" where
  "minutes n = n * 60000000"

text \<open>
  Python values as they come out of \<^verbatim>\<open>response.json()\<close> and \<^verbatim>\<open>jwt.decode\<close>. A dict keeps
  its insertion order; \<^verbatim>\<open>d[k] = v\<close> replaces the value of an existing key in place
  and appends a new key, which is \<^const>\<open>AList.update\<close>. JSON numbers are integers here.
\<close>

datatype json =
    JNull
  | JBool bool
  | JNum int
  | JStr string
  | JArr "json list"
  | JObj "(string \<times> json) list"

type_synonym pydict = "(string \<times> json) list"

text \<open>Python's truth value of an object, as \<^verbatim>\<open>if x:\<close> and \<^verbatim>\<open>x and y\<close> test it.\<close>

fun truthy :: "json \<Rightarrow> bool" where
  "truthy JNull = False"
| "truthy (JBool b) = b"
| "truthy (JNum n) = (n \<noteq> 0)"
| "truthy (JStr x) = (x \<noteq> [])"
| "truthy (JArr xs) = (xs \<noteq> [])"
| "truthy (JObj kvs) = (kvs \<noteq> [])"

text \<open>\<^verbatim>\<open>d.get(k)\<close>: the value, or \<^verbatim>\<open>None\<close> for a missing key.\<close>

definition dict_get :: "pydict \<Rightarrow> string \<Rightarrow> json" where
  "dict_get d k = (case map_of d k of None \<Rightarrow> JNull | Some v \<Rightarrow> v)"

text \<open>
  The exceptions the code distinguishes: FastAPI's \<^verbatim>\<open>HTTPException(status_code, detail)\<close>,
  \<^verbatim>\<open>httpx.RequestError\<close> (connection errors and timeouts), and every other subclass of
  \<^verbatim>\<open>Exception\<close>, named by its class. Exceptions outside \<^verbatim>\<open>Exception\<close> (task cancellation,
  interpreter exit) are not modelled.
\<close>

datatype exn =
    HTTPException int string
  | RequestError string
  | OtherException string

record response =
  status_code :: int
  text_body :: string
  json_body :: "json option"

text \<open>
  \<^const>\<open>text_body\<close> is \<^verbatim>\<open>response.text\<close>; \<^const>\<open>json_body\<close> is the result of
  \<^verbatim>\<open>response.json()\<close>, \<^const>\<open>None\<close> when that call raises.
\<close>

datatype post_result = Returned response | Raised exn

record request =
  url :: string
  headers :: "(string \<times> string) list"
  json_payload :: "json option"

record credentials =
  scheme :: string
  credential :: string

text \<open>
  The inbound FastAPI request: its \<^verbatim>\<open>Authorization\<close> header and the two attributes that
  \<^verbatim>\<open>MCPAuthDependency.__call__\<close> sets on \<^verbatim>\<open>request.state\<close>.
\<close>

record inbound =
  authorization :: "string option"
  state_bearer_token :: "string option"
  state_location_id :: "json option"

text \<open>
  The collaborators. \<^verbatim>\<open>clock e n\<close> is what the \<open>n\<close>-th reading of
  \<^verbatim>\<open>datetime.now(UTC)\<close> returns and \<^verbatim>\<open>http_post e n q\<close> is the outcome of the \<open>n\<close>-th
  \<^verbatim>\<open>client.post\<close>, sent with request \<open>q\<close>; no relation between successive readings or
  outcomes is built in. \<^verbatim>\<open>fromisoformat e x\<close> is \<^const>\<open>None\<close> when
  \<^verbatim>\<open>datetime.fromisoformat(x)\<close> raises, and otherwise the datetime it returns. \<^verbatim>\<open>jwt_decode e t\<close> is
  \<^verbatim>\<open>jwt.decode(t, options={"verify_signature": False})\<close>, \<^const>\<open>None\<close> when it raises.
  \<^verbatim>\<open>security e r\<close> is FastAPI's \<^verbatim>\<open>HTTPBearer()\<close> applied to the request.
\<close>

text \<open>
  What \<^verbatim>\<open>datetime.fromisoformat\<close> returns: an aware datetime (an instant), or a naive
  one when the string has no UTC offset. Comparing a naive datetime with the aware
  \<^verbatim>\<open>datetime.now(UTC)\<close> raises \<^verbatim>\<open>TypeError\<close>.
\<close>

datatype datetime = Aware time | Naive

record env =
  clock :: "nat \<Rightarrow> time"
  http_post :: "nat \<Rightarrow> request \<Rightarrow> post_result"
  isoformat :: "time \<Rightarrow> string"
  fromisoformat :: "string \<Rightarrow> datetime option"
  jwt_decode :: "string \<Rightarrow> pydict option"
  security :: "inbound \<Rightarrow> exn + credentials option"

text \<open>
  A \<^verbatim>\<open>TokenManager\<close> (its two caches and its base URL) together with the number of clock
  readings taken and the requests posted so far.
\<close>

record state =
  token_cache :: "string \<rightharpoonup> pydict"
  location_token_cache :: "string \<rightharpoonup> pydict"
  supabase_url :: string
  ticks :: nat
  posts :: "request list"

text \<open>
  \<^verbatim>\<open>TokenManager.__init__\<close>: empty caches, and the base URL from the environment variable
  \<^verbatim>\<open>SUPABASE_URL\<close> (the argument) or the built-in default.
\<close>

definition TokenManager_init :: "string option \<Rightarrow> state" where
  "TokenManager_init supabase_url_env =
     \<lparr>token_cache = Map.empty,
      location_token_cache = Map.empty,
      supabase_url = (case supabase_url_env of
                        None \<Rightarrow> ''https://egigkzfowimxfavnjvpe.supabase.co''
                      | Some u \<Rightarrow> u),
      ticks = 0,
      posts = []\<rparr>"

definition now :: "env \<Rightarrow> state \<Rightarrow> time \<times> state" where
  "now e s = (clock e (ticks s), s\<lparr>ticks := Suc (ticks s)\<rparr>)"

definition post :: "env \<Rightarrow> state \<Rightarrow> request \<Rightarrow> post_result \<times> state" where
  "post e s q = (http_post e (length (posts s)) q, s\<lparr>posts := posts s @ [q]\<rparr>)"

section \<open>TokenManager\<close>

text \<open>
  The test both caches apply to an entry they hold (lines 34-35 and 103-104):
  \<^verbatim>\<open>expires_at = cached.get("expires_at")\<close> and then
  \<^verbatim>\<open>expires_at and datetime.fromisoformat(expires_at) > datetime.now(UTC)\<close>.
  The left operand is evaluated first, so the clock is read only when \<^verbatim>\<open>expires_at\<close>
  is truthy and parses.
\<close>

definition unexpired :: "env \<Rightarrow> state \<Rightarrow> pydict \<Rightarrow> (exn + bool) \<times> state" where
  "unexpired e s cached =
     (let expires_at = dict_get cached ''expires_at'' in
      if \<not> truthy expires_at then (Inr False, s)
      else case expires_at of
             JStr x \<Rightarrow>
               (case fromisoformat e x of
                  None \<Rightarrow> (Inl (OtherException ''ValueError''), s)
                | Some Naive \<Rightarrow>
                    (let (n, s') = now e s in (Inl (OtherException ''TypeError''), s'))
                | Some (Aware t) \<Rightarrow> (let (n, s') = now e s in (Inr (n < t), s')))
           | _ \<Rightarrow> (Inl (OtherException ''TypeError''), s))"

text \<open>
  The cache check at the head of both methods: \<^verbatim>\<open>if key in cache\<close>, then the test above.
  The result is the entry to return on a hit and \<^const>\<open>None\<close> on a miss (no entry, an
  entry with a falsy \<^verbatim>\<open>expires_at\<close>, or one that has expired).
\<close>

definition fresh_entry ::
    "env \<Rightarrow> state \<Rightarrow> pydict option \<Rightarrow> (exn + pydict option) \<times> state" where
  "fresh_entry e s entry =
     (case entry of
        None \<Rightarrow> (Inr None, s)
      | Some cached \<Rightarrow>
          (case unexpired e s cached of
             (Inl x, s1) \<Rightarrow> (Inl x, s1)
           | (Inr True, s1) \<Rightarrow> (Inr (Some cached), s1)
           | (Inr False, s1) \<Rightarrow> (Inr None, s1)))"

definition validation_request :: "state \<Rightarrow> string \<Rightarrow> request" where
  "validation_request s token =
     \<lparr>url = supabase_url s @ ''/functions/v1/oauth-test'',
      headers = [(''Authorization'', ''Bearer '' @ token),
                 (''Content-Type'', ''application/json'')],
      json_payload = None\<rparr>"

text \<open>Lines 40-63, the part of \<^verbatim>\<open>validate_bearer_token\<close> under \<^verbatim>\<open># Validate via Supabase\<close>.\<close>

definition validate_via_supabase ::
    "env \<Rightarrow> state \<Rightarrow> string \<Rightarrow> (exn + pydict) \<times> state" where
  "validate_via_supabase e s token =
     (case post e s (validation_request s token) of
        (Raised (RequestError m), s2) \<Rightarrow>
          (Inl (HTTPException 503 ''Authentication service unavailable''), s2)
      | (Raised x, s2) \<Rightarrow> (Inl x, s2)
      | (Returned r, s2) \<Rightarrow>
          if status_code r = 200 then
            (case json_body r of
               None \<Rightarrow> (Inl (OtherException ''JSONDecodeError''), s2)
             | Some (JObj d) \<Rightarrow>
                 (let (n, s3) = now e s2;
                      data = AList.update ''expires_at''
                               (JStr (isoformat e (n + minutes 5))) d
                  in (Inr data, s3\<lparr>token_cache := (token_cache s3)(token \<mapsto> data)\<rparr>))
             | Some _ \<Rightarrow>
                 (let (n, s3) = now e s2 in (Inl (OtherException ''TypeError''), s3)))
          else
            (Inl (HTTPException 401 (''Token validation failed: '' @ text_body r)), s2))"

definition validate_bearer_token ::
    "env \<Rightarrow> state \<Rightarrow> string \<Rightarrow> (exn + pydict) \<times> state" where
  "validate_bearer_token e s token =
     (case fresh_entry e s (token_cache s token) of
        (Inl x, s1) \<Rightarrow> (Inl x, s1)
      | (Inr (Some cached), s1) \<Rightarrow> (Inr cached, s1)
      | (Inr None, s1) \<Rightarrow> validate_via_supabase e s1 token)"

definition get_location_from_token ::
    "env \<Rightarrow> state \<Rightarrow> string \<Rightarrow> (exn + json) \<times> state" where
  "get_location_from_token e s token =
     (case validate_bearer_token e s token of
        (Inl x, s1) \<Rightarrow> (Inl x, s1)
      | (Inr token_data, s1) \<Rightarrow>
          (case jwt_decode e token of
             None \<Rightarrow> (Inr (JStr ''test_location_id''), s1)
           | Some claims \<Rightarrow>
               (let location_id = dict_get claims ''locationId'' in
                if truthy location_id then (Inr location_id, s1)
                else (Inr (JStr ''test_location_id''), s1))))"

definition cache_key :: "string \<Rightarrow> string \<Rightarrow> string" where
  "cache_key bearer_token location_id = bearer_token @ '':'' @ location_id"

definition exchange_request :: "state \<Rightarrow> string \<Rightarrow> string \<Rightarrow> request" where
  "exchange_request s bearer_token location_id =
     \<lparr>url = supabase_url s @ ''/functions/v1/get-token'',
      headers = [(''Authorization'', ''Bearer '' @ bearer_token),
                 (''Content-Type'', ''application/json'')],
      json_payload = Some (JObj [(''location_id'', JStr location_id)])\<rparr>"

text \<open>Lines 108-139, the exchange with the \<^verbatim>\<open>get-token\<close> endpoint.\<close>

definition exchange_via_supabase ::
    "env \<Rightarrow> state \<Rightarrow> string \<Rightarrow> string \<Rightarrow> (exn + json) \<times> state" where
  "exchange_via_supabase e s bearer_token location_id =
     (case post e s (exchange_request s bearer_token location_id) of
        (Raised x, s2) \<Rightarrow> (Inr (JStr bearer_token), s2)
      | (Returned r, s2) \<Rightarrow>
          if status_code r = 200 then
            (case json_body r of
               None \<Rightarrow> (Inr (JStr bearer_token), s2)
             | Some (JObj data) \<Rightarrow>
                 (let location_token =
                        (case map_of data ''access_token'' of
                           None \<Rightarrow> JStr bearer_token
                         | Some v \<Rightarrow> v);
                      (n, s3) = now e s2
                  in (Inr location_token,
                      s3\<lparr>location_token_cache := (location_token_cache s3)
                           (cache_key bearer_token location_id \<mapsto>
                              [(''token'', location_token),
                               (''expires_at'', JStr (isoformat e (n + minutes 30)))])\<rparr>))
             | Some _ \<Rightarrow> (Inr (JStr bearer_token), s2))
          else (Inr (JStr bearer_token), s2))"

definition get_location_token ::
    "env \<Rightarrow> state \<Rightarrow> string \<Rightarrow> string \<Rightarrow> (exn + json) \<times> state" where
  "get_location_token e s bearer_token location_id =
     (case fresh_entry e s
             (location_token_cache s (cache_key bearer_token location_id)) of
        (Inl x, s1) \<Rightarrow> (Inl x, s1)
      | (Inr (Some cached), s1) \<Rightarrow>
          (case map_of cached ''token'' of
             Some v \<Rightarrow> (Inr v, s1)
           | None \<Rightarrow> (Inl (OtherException ''KeyError''), s1))
      | (Inr None, s1) \<Rightarrow> exchange_via_supabase e s1 bearer_token location_id)"

section \<open>HTTPAuthMiddleware and MCPAuthDependency\<close>

text \<open>
  \<^verbatim>\<open>except HTTPException: raise\<close> followed by \<^verbatim>\<open>except Exception\<close>, which turns every
  other exception into a 401.
\<close>

definition reraise :: "exn \<Rightarrow> exn" where
  "reraise x =
     (case x of
        HTTPException c d \<Rightarrow> HTTPException c d
      | _ \<Rightarrow> HTTPException 401 ''Authentication failed'')"

definition HTTPAuthMiddleware_call ::
    "env \<Rightarrow> state \<Rightarrow> credentials option \<Rightarrow> (exn + json) \<times> state" where
  "HTTPAuthMiddleware_call e s creds =
     (case creds of
        None \<Rightarrow> (Inl (HTTPException 401 ''Missing authorization header''), s)
      | Some c \<Rightarrow>
          (let token = credential c in
           case validate_bearer_token e s token of
             (Inl x, s1) \<Rightarrow> (Inl (reraise x), s1)
           | (Inr d, s1) \<Rightarrow>
               (case get_location_from_token e s1 token of
                  (Inl x, s2) \<Rightarrow> (Inl (reraise x), s2)
                | (Inr location_id, s2) \<Rightarrow> (Inr location_id, s2))))"

definition MCPAuthDependency_call ::
    "env \<Rightarrow> state \<Rightarrow> inbound \<Rightarrow> credentials option
       \<Rightarrow> (exn + json \<times> string) \<times> state \<times> inbound" where
  "MCPAuthDependency_call e s req creds =
     (case (case creds of None \<Rightarrow> security e req | Some c \<Rightarrow> Inr (Some c)) of
        Inl x \<Rightarrow> (Inl x, s, req)
      | Inr None \<Rightarrow> (Inl (HTTPException 401 ''Missing authorization''), s, req)
      | Inr (Some c) \<Rightarrow>
          (let token = credential c in
           case HTTPAuthMiddleware_call e s (Some c) of
             (Inl x, s1) \<Rightarrow> (Inl x, s1, req)
           | (Inr location_id, s1) \<Rightarrow>
               (Inr (location_id, token), s1,
                req\<lparr>state_bearer_token := Some token,
                    state_location_id := Some location_id\<rparr>)))"

section \<open>The client cache of the HTTP server\<close>

text \<open>
  \<^verbatim>\<open>get_ghl_client\<close> of \<^verbatim>\<open>http_server.py\<close> (lines 60-83) and the \<^verbatim>\<open>RemoteOAuthService\<close>
  it defines. The service keeps the token and the location it was built with (its
  \<^verbatim>\<open>settings\<close>, which no method here reads, are left out); its \<^verbatim>\<open>get_location_token\<close> is
  the one place in \<^verbatim>\<open>http_server.py\<close> that calls \<^verbatim>\<open>TokenManager.get_location_token\<close>, on
  the module's own \<^verbatim>\<open>token_manager\<close>, which is another instance than the one inside
  \<^verbatim>\<open>mcp_auth\<close>. The class \<^verbatim>\<open>GoHighLevelClient\<close> belongs to another module
  (\<^verbatim>\<open>src/api/client.py\<close>) and is not modelled: its constructor is the first argument of
  \<^verbatim>\<open>get_ghl_client\<close> and the type of clients is a parameter. The server's state is the dictionary \<^verbatim>\<open>ghl_clients\<close> and the module's
  \<^verbatim>\<open>token_manager\<close>. The cache key is \<^verbatim>\<open>f"{location_id}:{token[:10]}"\<close>.
\<close>

record RemoteOAuthService =
  self_token :: string
  self_location_id :: string

record 'c server =
  ghl_clients :: "string \<rightharpoonup> 'c"
  token_manager :: state

definition get_ghl_client ::
    "(RemoteOAuthService \<Rightarrow> 'c) \<Rightarrow> 'c server \<Rightarrow> string \<Rightarrow> string \<Rightarrow> 'c \<times> 'c server" where
  "get_ghl_client GoHighLevelClient sv location_id token =
     (let key = location_id @ '':'' @ take 10 token in
      case ghl_clients sv key of
        None \<Rightarrow>
          (let remote_oauth = \<lparr>self_token = token, self_location_id = location_id\<rparr>;
               client = GoHighLevelClient remote_oauth
           in (client, sv\<lparr>ghl_clients := (ghl_clients sv)(key \<mapsto> client)\<rparr>))
      | Some client \<Rightarrow> (client, sv))"


section \<open>Assumptions on the date library, and a concrete environment\<close>

text \<open>
  What the cache needs of \<^verbatim>\<open>datetime\<close>: a timestamp written by \<^verbatim>\<open>isoformat()\<close> is a
  non-empty string that \<^verbatim>\<open>datetime.fromisoformat\<close> reads back as the same instant.
\<close>

definition datetime_roundtrip :: "env \<Rightarrow> bool" where
  "datetime_roundtrip e \<longleftrightarrow>
     (\<forall>t. fromisoformat e (isoformat e t) = Some (Aware t) \<and> isoformat e t \<noteq> [])"

text \<open>
  A concrete environment for running the model: a clock that advances one second per reading,
  a tally notation for timestamps (a sign followed by one mark per microsecond), and the
  network and the JWT decoder as arguments. Its bearer scheme splits the
  \<^verbatim>\<open>Authorization\<close> header at the first space, compares the scheme with \<^verbatim>\<open>bearer\<close>
  without regard to case, and answers 401 \<^verbatim>\<open>Not authenticated\<close> when the header is missing,
  has no credentials or names another scheme.
\<close>

definition tally_isoformat :: "time \<Rightarrow> string" where
  "tally_isoformat t = (if t < 0 then CHR ''-'' else CHR ''+'') # replicate (nat \<bar>t\<bar>) CHR ''I''"

definition tally_fromisoformat :: "string \<Rightarrow> datetime option" where
  "tally_fromisoformat x =
     (case x of
        [] \<Rightarrow> None
      | c # r \<Rightarrow>
          if c = CHR ''+'' then Some (Aware (int (length r)))
          else if c = CHR ''-'' then Some (Aware (- int (length r)))
          else None)"

definition ascii_lower :: "char \<Rightarrow> char" where
  "ascii_lower c =
     (case map_of (zip ''ABCDEFGHIJKLMNOPQRSTUVWXYZ'' ''abcdefghijklmnopqrstuvwxyz'') c of
        None \<Rightarrow> c
      | Some l \<Rightarrow> l)"

definition bearer_scheme :: "inbound \<Rightarrow> exn + credentials option" where
  "bearer_scheme r =
     (case authorization r of
        None \<Rightarrow> Inl (HTTPException 401 ''Not authenticated'')
      | Some h \<Rightarrow>
          (let sch = takeWhile (\<lambda>c. c \<noteq> CHR '' '') h;
               param = drop (Suc (length sch)) h
           in if sch = [] \<or> param = [] then Inl (HTTPException 401 ''Not authenticated'')
              else if map ascii_lower sch \<noteq> ''bearer''
              then Inl (HTTPException 401 ''Not authenticated'')
              else Inr (Some \<lparr>scheme = sch, credential = param\<rparr>)))"

definition demo_env ::
    "(nat \<Rightarrow> request \<Rightarrow> post_result) \<Rightarrow> (string \<Rightarrow> pydict option) \<Rightarrow> env" where
  "demo_env net decode =
     \<lparr>clock = (\<lambda>n. 1000000 * int n),
      http_post = net,
      isoformat = tally_isoformat,
      fromisoformat = tally_fromisoformat,
      jwt_decode = decode,
      security = bearer_scheme\<rparr>"

text \<open>
  Behaviours of the two endpoints used in the examples: one that accepts every token, one
  that answers every request with a given status and text, one that cannot be reached, one
  whose 200 body already carries an \<^verbatim>\<open>expires_at\<close> field, one that grants a given scoped
  token, and one that grants \<^verbatim>\<open>scoped_1\<close> to the bearer \<^verbatim>\<open>a:b\<close> and \<^verbatim>\<open>scoped_2\<close> to every
  other bearer. \<open>unsigned_claims\<close> decodes the token \<^verbatim>\<open>abc\<close> to the given claims and fails
  on every other token.
\<close>

definition ok_response :: "pydict \<Rightarrow> response" where
  "ok_response d = \<lparr>status_code = 200, text_body = [], json_body = Some (JObj d)\<rparr>"

definition accepting :: "nat \<Rightarrow> request \<Rightarrow> post_result" where
  "accepting n q = Returned (ok_response [(''valid'', JBool True)])"

definition rejecting :: "int \<Rightarrow> string \<Rightarrow> nat \<Rightarrow> request \<Rightarrow> post_result" where
  "rejecting code msg n q = Returned \<lparr>status_code = code, text_body = msg, json_body = None\<rparr>"


definition stale_reply :: "nat \<Rightarrow> request \<Rightarrow> post_result" where
  "stale_reply n q =
     Returned (ok_response [(''expires_at'', JStr ''2020-01-01T00:00:00+00:00''),
                            (''user_id'', JStr ''user123'')])"

definition unsigned_claims :: "pydict \<Rightarrow> string \<Rightarrow> pydict option" where
  "unsigned_claims claims token = (if token = ''abc'' then Some claims else None)"

definition scoped_reply :: "nat \<Rightarrow> request \<Rightarrow> post_result" where
  "scoped_reply n q =
     Returned (ok_response
       [(''access_token'',
         JStr (if map_of (headers q) ''Authorization'' = Some ''Bearer a:b''
               then ''scoped_1'' else ''scoped_2''))])"

definition granting :: "string \<Rightarrow> nat \<Rightarrow> request \<Rightarrow> post_result" where
  "granting tok n q = Returned (ok_response [(''access_token'', JStr tok)])"

text \<open>
  An endpoint pair for a whole request: it accepts every token on a request without a body
  (a validation) and grants \<^verbatim>\<open>scoped_1\<close> on a request with one (an exchange).
\<close>

definition supabase :: "nat \<Rightarrow> request \<Rightarrow> post_result" where
  "supabase n q =
     (case json_payload q of
        None \<Rightarrow> Returned (ok_response [(''valid'', JBool True)])
      | Some b \<Rightarrow> Returned (ok_response [(''access_token'', JStr ''scoped_1'')]))"

section \<open>Basic facts\<close>

lemmas run_defs = validate_bearer_token_def fresh_entry_def unexpired_def dict_get_def
  validate_via_supabase_def post_def now_def minutes_def validation_request_def
  get_location_from_token_def get_location_token_def exchange_via_supabase_def
  exchange_request_def cache_key_def HTTPAuthMiddleware_call_def MCPAuthDependency_call_def
  reraise_def TokenManager_init_def accepting_def ok_response_def Let_def

lemma unexpired_frame:
  "unexpired e s c = (r, s') \<Longrightarrow>
     token_cache s' = token_cache s \<and> location_token_cache s' = location_token_cache s \<and>
     supabase_url s' = supabase_url s \<and> posts s' = posts s"
  by (auto simp: unexpired_def now_def Let_def
           split: if_splits json.splits option.splits datetime.splits)

lemma fresh_entry_frame:
  "fresh_entry e s entry = (r, s') \<Longrightarrow>
     token_cache s' = token_cache s \<and> location_token_cache s' = location_token_cache s \<and>
     supabase_url s' = supabase_url s \<and> posts s' = posts s"
  by (auto simp: fresh_entry_def split: option.splits prod.splits sum.splits bool.splits
           dest: unexpired_frame)

lemma unexpired_stamped:
  assumes "datetime_roundtrip e" and "dict_get c ''expires_at'' = JStr (isoformat e x)"
  shows "unexpired e s c = (Inr (clock e (ticks s) < x), s\<lparr>ticks := Suc (ticks s)\<rparr>)"
  using assms by (simp add: unexpired_def datetime_roundtrip_def now_def)

lemma fresh_entry_hit:
  assumes "datetime_roundtrip e" and "dict_get c ''expires_at'' = JStr (isoformat e x)"
    and "clock e (ticks s) < x"
  shows "fresh_entry e s (Some c) = (Inr (Some c), s\<lparr>ticks := Suc (ticks s)\<rparr>)"
  using assms by (simp add: fresh_entry_def unexpired_stamped)

lemma dict_get_update: "dict_get (AList.update k v d) k = v"
  by (simp add: dict_get_def update_conv')

lemma validate_via_supabase_Inr:
  assumes "validate_via_supabase e s T = (Inr d, s')"
  shows "\<exists>r b. http_post e (length (posts s)) (validation_request s T) = Returned r \<and>
           status_code r = 200 \<and> json_body r = Some (JObj b) \<and>
           d = AList.update ''expires_at'' (JStr (isoformat e (clock e (ticks s) + minutes 5))) b \<and>
           s' = s\<lparr>posts := posts s @ [validation_request s T], ticks := Suc (ticks s),
                  token_cache := (token_cache s)(T \<mapsto> d)\<rparr>"
  using assms
  by (auto simp: validate_via_supabase_def post_def now_def Let_def
           split: post_result.splits exn.splits if_splits option.splits json.splits)

lemma validate_bearer_token_cases:
  assumes "validate_bearer_token e s T = (Inr d, s1)"
  shows "(fresh_entry e s (token_cache s T) = (Inr (Some d), s1)) \<or>
         (\<exists>s0. fresh_entry e s (token_cache s T) = (Inr None, s0) \<and>
               validate_via_supabase e s0 T = (Inr d, s1))"
  using assms
  by (auto simp: validate_bearer_token_def split: prod.splits sum.splits option.splits)

lemma tally_roundtrip [simp]: "tally_fromisoformat (tally_isoformat t) = Some (Aware t)"
  by (simp add: tally_isoformat_def tally_fromisoformat_def)

lemma tally_nonempty [simp]: "tally_isoformat t \<noteq> []"
  by (simp add: tally_isoformat_def)

lemma demo_env_roundtrip [simp]: "datetime_roundtrip (demo_env net decode)"
  by (simp add: datetime_roundtrip_def demo_env_def)

lemma demo_env_sel [simp]:
  "clock (demo_env net decode) n = 1000000 * int n"
  "http_post (demo_env net decode) = net"
  "isoformat (demo_env net decode) = tally_isoformat"
  "fromisoformat (demo_env net decode) = tally_fromisoformat"
  "jwt_decode (demo_env net decode) = decode"
  "security (demo_env net decode) = bearer_scheme"
  by (simp_all add: demo_env_def)

lemma validate_miss:
  assumes "fresh_entry e s (token_cache s T) = (Inr None, s0)"
  shows "validate_bearer_token e s T = validate_via_supabase e s0 T"
  using assms by (simp add: validate_bearer_token_def)

lemma fresh_entry_request:
  assumes "fresh_entry e s entry = (r, s0)"
  shows "validation_request s0 T = validation_request s T"
    and "exchange_request s0 T L = exchange_request s T L"
    and "length (posts s0) = length (posts s)"
  using fresh_entry_frame [OF assms]
  by (simp_all add: validation_request_def exchange_request_def)

lemma validate_via_supabase_ok:
  assumes "http_post e (length (posts s)) (validation_request s T) = Returned r"
    and "status_code r = 200" and "json_body r = Some (JObj b)"
  shows "validate_via_supabase e s T =
           (Inr (AList.update ''expires_at''
                   (JStr (isoformat e (clock e (ticks s) + minutes 5))) b),
            s\<lparr>posts := posts s @ [validation_request s T], ticks := Suc (ticks s),
               token_cache := (token_cache s)(T \<mapsto> AList.update ''expires_at''
                   (JStr (isoformat e (clock e (ticks s) + minutes 5))) b)\<rparr>)"
  using assms by (simp add: validate_via_supabase_def post_def now_def Let_def)

lemma truthy_dict_get_key:
  assumes "truthy (dict_get c k)"
  shows "k \<in> fst ` set c"
proof (cases "map_of c k")
  case None
  with assms show ?thesis by (simp add: dict_get_def)
next
  case (Some v)
  then have "(k, v) \<in> set c" by (rule map_of_SomeD)
  then show ?thesis by force
qed

lemma unexpired_True_key:
  assumes "unexpired e s c = (Inr True, s')"
  shows "''expires_at'' \<in> fst ` set c"
proof -
  have "truthy (dict_get c ''expires_at'')"
    using assms by (auto simp: unexpired_def Let_def split: if_splits)
  then show ?thesis by (rule truthy_dict_get_key)
qed

lemma fresh_entry_Some_key:
  "fresh_entry e s entry = (Inr (Some c), s') \<Longrightarrow> ''expires_at'' \<in> fst ` set c"
  by (auto simp: fresh_entry_def split: option.splits prod.splits sum.splits bool.splits
           dest: unexpired_True_key)

lemma update_key: "k \<in> fst ` set (AList.update k v d)"
  by (induction d) auto

lemma validate_result_has_expires_at:
  assumes "validate_bearer_token e s T = (Inr d, s1)"
  shows "''expires_at'' \<in> fst ` set d"
  using validate_bearer_token_cases [OF assms]
proof
  assume "fresh_entry e s (token_cache s T) = (Inr (Some d), s1)"
  then show ?thesis by (rule fresh_entry_Some_key)
next
  assume "\<exists>s0. fresh_entry e s (token_cache s T) = (Inr None, s0) \<and>
               validate_via_supabase e s0 T = (Inr d, s1)"
  then obtain s0 where "validate_via_supabase e s0 T = (Inr d, s1)" by blast
  from validate_via_supabase_Inr [OF this] show ?thesis
    by (auto simp: update_key)
qed


lemma validate_via_supabase_rejected:
  assumes "http_post e (length (posts s)) (validation_request s T) = Returned r"
    and "status_code r \<noteq> 200"
  shows "validate_via_supabase e s T =
           (Inl (HTTPException 401 (''Token validation failed: '' @ text_body r)),
            s\<lparr>posts := posts s @ [validation_request s T]\<rparr>)"
  using assms by (simp add: validate_via_supabase_def post_def)

lemma fresh_entry_TokenManager_init [simp]:
  "fresh_entry e (TokenManager_init u) (token_cache (TokenManager_init u) T) =
     (Inr None, TokenManager_init u)"
  "fresh_entry e (TokenManager_init u) (location_token_cache (TokenManager_init u) k) =
     (Inr None, TokenManager_init u)"
  by (simp_all add: fresh_entry_def TokenManager_init_def)

lemma resolve_after_validation:
  assumes "validate_bearer_token e s T = (Inr d, s1)"
  shows "get_location_from_token e s T =
           (case jwt_decode e T of
              None \<Rightarrow> (Inr (JStr ''test_location_id''), s1)
            | Some claims \<Rightarrow>
                if truthy (dict_get claims ''locationId'')
                then (Inr (dict_get claims ''locationId''), s1)
                else (Inr (JStr ''test_location_id''), s1))"
  using assms by (simp add: get_location_from_token_def Let_def split: option.splits)

lemma get_location_token_miss:
  assumes "fresh_entry e s (location_token_cache s (cache_key T L)) = (Inr None, s0)"
  shows "get_location_token e s T L = exchange_via_supabase e s0 T L"
  using assms by (simp add: get_location_token_def)

lemma exchange_via_supabase_ok:
  assumes "http_post e (length (posts s)) (exchange_request s T L) = Returned r"
    and "status_code r = 200" and "json_body r = Some (JObj data)"
    and "map_of data ''access_token'' = Some v"
  shows "exchange_via_supabase e s T L =
           (Inr v,
            s\<lparr>posts := posts s @ [exchange_request s T L], ticks := Suc (ticks s),
               location_token_cache := (location_token_cache s)(cache_key T L \<mapsto>
                 [(''token'', v),
                  (''expires_at'', JStr (isoformat e (clock e (ticks s) + minutes 30)))])\<rparr>)"
  using assms by (simp add: exchange_via_supabase_def post_def now_def Let_def)

lemma exchange_via_supabase_failed:
  assumes "(\<exists>x. http_post e (length (posts s)) (exchange_request s T L) = Raised x) \<or>
           (\<exists>r. http_post e (length (posts s)) (exchange_request s T L) = Returned r \<and>
                status_code r \<noteq> 200) \<or>
           (\<exists>r. http_post e (length (posts s)) (exchange_request s T L) = Returned r \<and>
                (\<forall>d. json_body r \<noteq> Some (JObj d)))"
  shows "exchange_via_supabase e s T L =
           (Inr (JStr T), s\<lparr>posts := posts s @ [exchange_request s T L]\<rparr>)"
  using assms
  by (auto simp: exchange_via_supabase_def post_def split: option.splits json.splits)

lemma exchange_via_supabase_posts:
  "posts (snd (exchange_via_supabase e s T L)) = posts s @ [exchange_request s T L]"
  by (simp add: exchange_via_supabase_def post_def now_def Let_def
           split: post_result.splits option.splits json.splits)

lemma get_location_token_hit:
  assumes codec: "datetime_roundtrip e"
    and entry: "location_token_cache s (cache_key T L) =
                  Some [(''token'', v), (''expires_at'', JStr (isoformat e x))]"
    and recent: "clock e (ticks s) < x"
  shows "get_location_token e s T L = (Inr v, s\<lparr>ticks := Suc (ticks s)\<rparr>)"
proof -
  let ?c = "[(''token'', v), (''expires_at'', JStr (isoformat e x))]"
  have "dict_get ?c ''expires_at'' = JStr (isoformat e x)"
    by (simp add: dict_get_def)
  from fresh_entry_hit [OF codec this recent]
  show ?thesis by (simp add: get_location_token_def entry)
qed

lemma fresh_entry_miss_later:
  assumes "fresh_entry e s entry = (Inr None, s0)"
    and "clock e (ticks s) \<le> clock e (ticks s2)"
  shows "\<exists>s3. fresh_entry e s2 entry = (Inr None, s3)"
  using assms
  by (auto simp: fresh_entry_def unexpired_def now_def Let_def
           split: option.splits if_splits json.splits bool.splits datetime.splits)




lemma cache_key_inj_no_colon:
  assumes "CHR '':'' \<notin> set T1" and "CHR '':'' \<notin> set T2"
    and "cache_key T1 L1 = cache_key T2 L2"
  shows "T1 = T2 \<and> L1 = L2"
  using assms
proof (induction T1 arbitrary: T2)
  case Nil
  then show ?case by (cases T2) (auto simp: cache_key_def)
next
  case (Cons a T1)
  then show ?case by (cases T2) (auto simp: cache_key_def)
qed



section \<open>Token Validator\<close>

text \<open>
  C1. A bearer token that the identity endpoint validated (the call returned a payload and
  posted a request) is served from the cache by a later call: whenever the entry written
  for the token is still in the cache and the clock reading of the later call is less than
  five minutes after the reading that stamped the entry, the later call returns the same
  payload, posts nothing and leaves both caches as they are. The payload's
  \<^verbatim>\<open>expires_at\<close> is the stamp, which is strictly later than that reading. The stamping
  reading is the last one the validating call took, number \<open>ticks s1 - 1\<close>.
\<close>

theorem validate_bearer_token_cache_hit:
  assumes codec: "datetime_roundtrip e"
    and first: "validate_bearer_token e s T = (Inr d, s1)"
    and asked: "posts s1 \<noteq> posts s"
    and kept: "token_cache s2 T = token_cache s1 T"
    and recent: "clock e (ticks s2) < clock e (ticks s1 - 1) + minutes 5"
  shows "validate_bearer_token e s2 T = (Inr d, s2\<lparr>ticks := Suc (ticks s2)\<rparr>) \<and>
         dict_get d ''expires_at'' = JStr (isoformat e (clock e (ticks s1 - 1) + minutes 5)) \<and>
         0 < ticks s1"
proof -
  from validate_bearer_token_cases [OF first] asked
  obtain s0 where miss: "fresh_entry e s (token_cache s T) = (Inr None, s0)"
      and via: "validate_via_supabase e s0 T = (Inr d, s1)"
    by (auto dest: fresh_entry_frame)
  from validate_via_supabase_Inr [OF via] obtain b where
      d: "d = AList.update ''expires_at''
                (JStr (isoformat e (clock e (ticks s0) + minutes 5))) b"
      and s1: "s1 = s0\<lparr>posts := posts s0 @ [validation_request s0 T], ticks := Suc (ticks s0),
                        token_cache := (token_cache s0)(T \<mapsto> d)\<rparr>"
    by blast
  have t: "ticks s1 - 1 = ticks s0" and pos: "0 < ticks s1" by (simp_all add: s1)
  have stamp: "dict_get d ''expires_at'' = JStr (isoformat e (clock e (ticks s1 - 1) + minutes 5))"
    unfolding t by (subst d) (rule dict_get_update)
  have entry: "token_cache s2 T = Some d" by (simp add: kept s1)
  have "fresh_entry e s2 (Some d) = (Inr (Some d), s2\<lparr>ticks := Suc (ticks s2)\<rparr>)"
    by (rule fresh_entry_hit [OF codec stamp recent])
  then have "validate_bearer_token e s2 T = (Inr d, s2\<lparr>ticks := Suc (ticks s2)\<rparr>)"
    by (simp add: validate_bearer_token_def entry)
  with stamp pos show ?thesis by simp
qed

theorem validate_bearer_token_cache_hit_witness:
  "validate_bearer_token (demo_env accepting Map.empty) (TokenManager_init None) ''abc'' =
     (Inr [(''valid'', JBool True), (''expires_at'', JStr (tally_isoformat 300000000))],
      (TokenManager_init None)
        \<lparr>posts := [validation_request (TokenManager_init None) ''abc''],
         ticks := 1,
         token_cache := [''abc'' \<mapsto> [(''valid'', JBool True),
                           (''expires_at'', JStr (tally_isoformat 300000000))]]\<rparr>) \<and>
   validate_bearer_token (demo_env accepting Map.empty)
     ((TokenManager_init None)
        \<lparr>posts := [validation_request (TokenManager_init None) ''abc''],
         ticks := 1,
         token_cache := [''abc'' \<mapsto> [(''valid'', JBool True),
                           (''expires_at'', JStr (tally_isoformat 300000000))]]\<rparr>) ''abc'' =
     (Inr [(''valid'', JBool True), (''expires_at'', JStr (tally_isoformat 300000000))],
      (TokenManager_init None)
        \<lparr>posts := [validation_request (TokenManager_init None) ''abc''],
         ticks := 2,
         token_cache := [''abc'' \<mapsto> [(''valid'', JBool True),
                           (''expires_at'', JStr (tally_isoformat 300000000))]]\<rparr>)"
proof -
  let ?e = "demo_env accepting Map.empty"
  let ?s = "TokenManager_init None"
  let ?d = "[(''valid'', JBool True), (''expires_at'', JStr (tally_isoformat 300000000))]"
  let ?s1 = "?s\<lparr>posts := [validation_request ?s ''abc''], ticks := 1,
                token_cache := [''abc'' \<mapsto> ?d]\<rparr>"
  have first: "validate_bearer_token ?e ?s ''abc'' = (Inr ?d, ?s1)"
    by (simp add: run_defs)
  have asked: "posts ?s1 \<noteq> posts ?s"
    by (simp add: TokenManager_init_def)
  have recent: "clock ?e (ticks ?s1) < clock ?e (ticks ?s1 - 1) + minutes 5"
    by (simp add: minutes_def)
  from validate_bearer_token_cache_hit [OF demo_env_roundtrip first asked refl recent]
  have second: "validate_bearer_token ?e ?s1 ''abc'' =
      (Inr ?d, ?s\<lparr>posts := [validation_request ?s ''abc''], ticks := 2,
                  token_cache := [''abc'' \<mapsto> ?d]\<rparr>)"
    by simp
  from first second show ?thesis by (rule conjI)
qed

text \<open>
  C10. When the cache misses and the identity endpoint answers 200 with a JSON object \<open>B\<close>,
  what \<^verbatim>\<open>validate_bearer_token\<close> returns, and stores in the cache under the token, is
  \<open>B\<close> with the key \<^verbatim>\<open>expires_at\<close> set to the stamp (the clock reading plus five minutes,
  in ISO format): the key is added, or its value replaced when the endpoint sent one, and
  every other key keeps its value. Every payload that \<^verbatim>\<open>validate_bearer_token\<close> returns,
  from the endpoint or from the cache, has the key \<^verbatim>\<open>expires_at\<close>.
\<close>

theorem validate_returns_stamped_payload:
  assumes miss: "fresh_entry e s (token_cache s T) = (Inr None, s0)"
    and reply: "http_post e (length (posts s)) (validation_request s T) = Returned r"
    and ok: "status_code r = 200"
    and body: "json_body r = Some (JObj B)"
    and data: "data = AList.update ''expires_at''
                        (JStr (isoformat e (clock e (ticks s0) + minutes 5))) B"
  shows "(\<exists>s1. validate_bearer_token e s T = (Inr data, s1) \<and> token_cache s1 T = Some data) \<and>
         map_of data =
           (map_of B)(''expires_at'' \<mapsto> JStr (isoformat e (clock e (ticks s0) + minutes 5))) \<and>
         (\<forall>e' s' T' d' s''. validate_bearer_token e' s' T' = (Inr d', s'') \<longrightarrow>
            ''expires_at'' \<in> fst ` set d')"
proof -
  have "http_post e (length (posts s0)) (validation_request s0 T) = Returned r"
    using reply by (simp add: fresh_entry_request [OF miss])
  from validate_via_supabase_ok [OF this ok body]
  have "\<exists>s1. validate_bearer_token e s T = (Inr data, s1) \<and> token_cache s1 T = Some data"
    by (simp add: validate_miss [OF miss] data)
  moreover have "map_of data =
      (map_of B)(''expires_at'' \<mapsto> JStr (isoformat e (clock e (ticks s0) + minutes 5)))"
    unfolding data by (rule update_conv')
  moreover have "\<forall>e' s' T' d' s''. validate_bearer_token e' s' T' = (Inr d', s'') \<longrightarrow>
      ''expires_at'' \<in> fst ` set d'"
    by (blast intro: validate_result_has_expires_at)
  ultimately show ?thesis by blast
qed

theorem validate_returns_stamped_payload_witness:
  "fst (validate_bearer_token (demo_env stale_reply Map.empty) (TokenManager_init None) ''abc'') =
     Inr [(''expires_at'', JStr (tally_isoformat 300000000)), (''user_id'', JStr ''user123'')] \<and>
   token_cache
     (snd (validate_bearer_token (demo_env stale_reply Map.empty) (TokenManager_init None) ''abc''))
     ''abc'' =
     Some [(''expires_at'', JStr (tally_isoformat 300000000)), (''user_id'', JStr ''user123'')]"
proof -
  let ?e = "demo_env stale_reply Map.empty"
  let ?s = "TokenManager_init None"
  let ?B = "[(''expires_at'', JStr ''2020-01-01T00:00:00+00:00''), (''user_id'', JStr ''user123'')]"
  let ?d = "[(''expires_at'', JStr (tally_isoformat 300000000)), (''user_id'', JStr ''user123'')]"
  have reply: "http_post ?e (length (posts ?s)) (validation_request ?s ''abc'') =
                 Returned (ok_response ?B)"
    by (simp add: stale_reply_def)
  have ok: "status_code (ok_response ?B) = 200" and body: "json_body (ok_response ?B) = Some (JObj ?B)"
    by (simp_all add: ok_response_def)
  have data: "?d = AList.update ''expires_at''
                     (JStr (isoformat ?e (clock ?e (ticks ?s) + minutes 5))) ?B"
    by (simp add: TokenManager_init_def minutes_def)
  from validate_returns_stamped_payload [OF fresh_entry_TokenManager_init(1) reply ok body data]
  show ?thesis by auto
qed



text \<open>
  C6, as the code has it. When the cache misses and the identity endpoint answers with a
  status other than 200, \<^verbatim>\<open>validate_bearer_token\<close> raises \<^verbatim>\<open>HTTPException\<close> with status
  401 and the detail \<^verbatim>\<open>"Token validation failed: "\<close> followed by the response text; nothing
  is cached. The status is always 401, whatever status the endpoint sent.
\<close>

theorem validate_rejection_is_401:
  assumes miss: "fresh_entry e s (token_cache s T) = (Inr None, s0)"
    and reply: "http_post e (length (posts s)) (validation_request s T) = Returned r"
    and rejected: "status_code r \<noteq> 200"
  shows "validate_bearer_token e s T =
           (Inl (HTTPException 401 (''Token validation failed: '' @ text_body r)),
            s0\<lparr>posts := posts s @ [validation_request s T]\<rparr>)"
proof -
  have "http_post e (length (posts s0)) (validation_request s0 T) = Returned r"
    using reply by (simp add: fresh_entry_request [OF miss])
  from validate_via_supabase_rejected [OF this rejected] show ?thesis
    using fresh_entry_frame [OF miss]
    by (simp add: validate_miss [OF miss] fresh_entry_request [OF miss])
qed

theorem validate_rejection_is_401_witness:
  "validate_bearer_token (demo_env (rejecting 403 ''Forbidden'') Map.empty)
       (TokenManager_init None) ''abc'' =
     (Inl (HTTPException 401 ''Token validation failed: Forbidden''),
      (TokenManager_init None)\<lparr>posts := [validation_request (TokenManager_init None) ''abc'']\<rparr>)"
proof -
  let ?e = "demo_env (rejecting 403 ''Forbidden'') Map.empty"
  let ?r = "\<lparr>status_code = 403, text_body = ''Forbidden'', json_body = None\<rparr>"
  have reply: "http_post ?e (length (posts (TokenManager_init None)))
                 (validation_request (TokenManager_init None) ''abc'') = Returned ?r"
    by (simp add: rejecting_def)
  have rejected: "status_code ?r \<noteq> 200" by simp
  from validate_rejection_is_401 [OF fresh_entry_TokenManager_init(1) reply rejected]
  show ?thesis by (simp add: TokenManager_init_def)
qed

text \<open>
  The exception does not carry the response status: a response with status 500 and text
  \<^verbatim>\<open>down\<close> gives status 401 and a detail without the number 500.
\<close>

theorem validate_drops_response_status:
  "http_post (demo_env (rejecting 500 ''down'') Map.empty) 0
       (validation_request (TokenManager_init None) ''abc'') =
     Returned \<lparr>status_code = 500, text_body = ''down'', json_body = None\<rparr> \<and>
   fst (validate_bearer_token (demo_env (rejecting 500 ''down'') Map.empty)
          (TokenManager_init None) ''abc'') =
     Inl (HTTPException 401 ''Token validation failed: down'')"
  by (simp add: rejecting_def run_defs)

section \<open>Location Resolver\<close>

text \<open>
  C4, as the code has it. \<^verbatim>\<open>get_location_from_token\<close> validates the token first, outside
  its \<^verbatim>\<open>try\<close>: an exception of that validation leaves the method unchanged. Once the
  validation has returned, the method does not raise: it returns the sentinel
  \<^verbatim>\<open>"test_location_id"\<close> or the truthy \<^verbatim>\<open>locationId\<close> claim of the decoded token.
\<close>

theorem resolve_never_raises_once_validated:
  shows "(\<forall>d s1. validate_bearer_token e s T = (Inr d, s1) \<longrightarrow>
            (\<exists>v. get_location_from_token e s T = (Inr v, s1) \<and>
                 (v = JStr ''test_location_id'' \<or>
                  (\<exists>claims. jwt_decode e T = Some claims \<and>
                     map_of claims ''locationId'' = Some v \<and> truthy v)))) \<and>
         (\<forall>x s1. validate_bearer_token e s T = (Inl x, s1) \<longrightarrow>
            get_location_from_token e s T = (Inl x, s1))"
proof (intro conjI allI impI)
  fix d s1
  assume v: "validate_bearer_token e s T = (Inr d, s1)"
  show "\<exists>v. get_location_from_token e s T = (Inr v, s1) \<and>
           (v = JStr ''test_location_id'' \<or>
            (\<exists>claims. jwt_decode e T = Some claims \<and>
               map_of claims ''locationId'' = Some v \<and> truthy v))"
  proof (cases "jwt_decode e T")
    case None
    then show ?thesis by (simp add: resolve_after_validation [OF v])
  next
    case (Some claims)
    show ?thesis
    proof (cases "map_of claims ''locationId''")
      case None
      with Some show ?thesis
        by (simp add: resolve_after_validation [OF v] dict_get_def)
    next
      case (Some w)
      with \<open>jwt_decode e T = Some claims\<close> show ?thesis
        by (simp add: resolve_after_validation [OF v] dict_get_def)
    qed
  qed
next
  fix x s1
  assume "validate_bearer_token e s T = (Inl x, s1)"
  then show "get_location_from_token e s T = (Inl x, s1)"
    by (simp add: get_location_from_token_def)
qed

theorem resolve_never_raises_once_validated_witness:
  "fst (validate_bearer_token
          (demo_env accepting (unsigned_claims [(''locationId'', JStr ''loc_9'')]))
          (TokenManager_init None) ''abc'') =
     Inr [(''valid'', JBool True), (''expires_at'', JStr (tally_isoformat 300000000))] \<and>
   \<not> isl (fst (get_location_from_token
                 (demo_env accepting (unsigned_claims [(''locationId'', JStr ''loc_9'')]))
                 (TokenManager_init None) ''abc''))"
proof -
  let ?e = "demo_env accepting (unsigned_claims [(''locationId'', JStr ''loc_9'')])"
  let ?s = "TokenManager_init None"
  have f: "fst (validate_bearer_token ?e ?s ''abc'') =
          Inr [(''valid'', JBool True), (''expires_at'', JStr (tally_isoformat 300000000))]"
    by (simp add: run_defs)
  then have v: "validate_bearer_token ?e ?s ''abc'' =
      (Inr [(''valid'', JBool True), (''expires_at'', JStr (tally_isoformat 300000000))],
       snd (validate_bearer_token ?e ?s ''abc''))"
    by (simp add: prod_eq_iff)
  from resolve_never_raises_once_validated [of ?e ?s "''abc''", THEN conjunct1, rule_format, OF v]
  obtain x where "get_location_from_token ?e ?s ''abc'' =
      (Inr x, snd (validate_bearer_token ?e ?s ''abc''))"
    by blast
  with f show ?thesis by simp
qed

text \<open>
  A token that the identity endpoint rejects makes \<^verbatim>\<open>get_location_from_token\<close> raise.
\<close>

theorem resolve_raises_on_rejected_token:
  "get_location_from_token (demo_env (rejecting 401 ''Invalid token'') Map.empty)
       (TokenManager_init None) ''abc'' =
     (Inl (HTTPException 401 ''Token validation failed: Invalid token''),
      (TokenManager_init None)\<lparr>posts := [validation_request (TokenManager_init None) ''abc'']\<rparr>)"
  by (simp add: rejecting_def run_defs)

text \<open>
  C7, as the code has it. For a token whose validation returns: a \<^verbatim>\<open>locationId\<close> claim
  that is truthy is returned as it is; a claim that is present but falsy (the empty string,
  \<^verbatim>\<open>null\<close>, zero) gives the sentinel \<^verbatim>\<open>"test_location_id"\<close>, as an absent claim does
  and as a token that does not decode does.
\<close>

theorem resolve_location_claim:
  assumes "validate_bearer_token e s T = (Inr d, s1)"
  shows "(\<forall>claims v. jwt_decode e T = Some claims \<and> map_of claims ''locationId'' = Some v \<and>
            truthy v \<longrightarrow> get_location_from_token e s T = (Inr v, s1)) \<and>
         (\<forall>claims v. jwt_decode e T = Some claims \<and> map_of claims ''locationId'' = Some v \<and>
            \<not> truthy v \<longrightarrow> get_location_from_token e s T = (Inr (JStr ''test_location_id''), s1)) \<and>
         (\<forall>claims. jwt_decode e T = Some claims \<and> map_of claims ''locationId'' = None \<longrightarrow>
            get_location_from_token e s T = (Inr (JStr ''test_location_id''), s1)) \<and>
         (jwt_decode e T = None \<longrightarrow>
            get_location_from_token e s T = (Inr (JStr ''test_location_id''), s1))"
  by (simp add: resolve_after_validation [OF assms] dict_get_def)

theorem resolve_location_claim_witness:
  "fst (get_location_from_token
          (demo_env accepting (unsigned_claims [(''locationId'', JStr ''loc_9'')]))
          (TokenManager_init None) ''abc'') = Inr (JStr ''loc_9'') \<and>
   fst (get_location_from_token
          (demo_env accepting (unsigned_claims [(''companyId'', JStr ''comp123'')]))
          (TokenManager_init None) ''abc'') = Inr (JStr ''test_location_id'') \<and>
   fst (get_location_from_token
          (demo_env accepting (unsigned_claims [(''companyId'', JStr ''comp123'')]))
          (TokenManager_init None) ''not.a.jwt'') = Inr (JStr ''test_location_id'')"
proof -
  let ?e = "demo_env accepting (unsigned_claims [(''companyId'', JStr ''comp123'')])"
  let ?e9 = "demo_env accepting (unsigned_claims [(''locationId'', JStr ''loc_9'')])"
  let ?s = "TokenManager_init None"
  let ?d = "[(''valid'', JBool True), (''expires_at'', JStr (tally_isoformat 300000000))]"
  have "fst (validate_bearer_token ?e9 ?s ''abc'') = Inr ?d"
    by (simp add: run_defs)
  then have u: "validate_bearer_token ?e9 ?s ''abc'' =
      (Inr ?d, snd (validate_bearer_token ?e9 ?s ''abc''))"
    by (simp add: prod_eq_iff)
  have "fst (validate_bearer_token ?e ?s ''abc'') = Inr ?d"
    by (simp add: run_defs)
  then have v: "validate_bearer_token ?e ?s ''abc'' =
      (Inr ?d, snd (validate_bearer_token ?e ?s ''abc''))"
    by (simp add: prod_eq_iff)
  have "fst (validate_bearer_token ?e ?s ''not.a.jwt'') = Inr ?d"
    by (simp add: run_defs)
  then have w: "validate_bearer_token ?e ?s ''not.a.jwt'' =
      (Inr ?d, snd (validate_bearer_token ?e ?s ''not.a.jwt''))"
    by (simp add: prod_eq_iff)
  from resolve_location_claim [OF u] resolve_location_claim [OF v] resolve_location_claim [OF w]
  show ?thesis by (simp add: unsigned_claims_def)
qed

text \<open>
  The claims \<^verbatim>\<open>{"locationId": ""}\<close> contain a \<^verbatim>\<open>locationId\<close> claim, and the result is
  the sentinel, not the claim.
\<close>

theorem resolve_ignores_empty_location_claim:
  "jwt_decode (demo_env accepting (unsigned_claims [(''locationId'', JStr [])])) ''abc'' =
     Some [(''locationId'', JStr [])] \<and>
   fst (validate_bearer_token (demo_env accepting (unsigned_claims [(''locationId'', JStr [])]))
          (TokenManager_init None) ''abc'') =
     Inr [(''valid'', JBool True), (''expires_at'', JStr (tally_isoformat 300000000))] \<and>
   fst (get_location_from_token (demo_env accepting (unsigned_claims [(''locationId'', JStr [])]))
          (TokenManager_init None) ''abc'') =
     Inr (JStr ''test_location_id'')"
  by (simp add: unsigned_claims_def run_defs)

section \<open>Location Token Exchanger\<close>

text \<open>
  C2. When the cache misses for the pair and the exchange endpoint answers 200 with a JSON
  object that has an \<^verbatim>\<open>access_token\<close> field, \<^verbatim>\<open>get_location_token\<close> returns that
  field, having posted one request, and stores it under the pair's key with the expiry
  "clock reading plus thirty minutes". Every later call for the pair that finds this entry
  and reads the clock before that expiry returns the same token, posts nothing and changes
  no cache.
\<close>

theorem get_location_token_caches_scoped_token:
  assumes codec: "datetime_roundtrip e"
    and miss: "fresh_entry e s (location_token_cache s (cache_key T L)) = (Inr None, s0)"
    and reply: "http_post e (length (posts s)) (exchange_request s T L) = Returned r"
    and ok: "status_code r = 200"
    and body: "json_body r = Some (JObj data)"
    and field: "map_of data ''access_token'' = Some v"
    and s1: "s1 = snd (get_location_token e s T L)"
  shows "get_location_token e s T L = (Inr v, s1) \<and>
         posts s1 = posts s @ [exchange_request s T L] \<and>
         location_token_cache s1 (cache_key T L) =
           Some [(''token'', v),
                 (''expires_at'', JStr (isoformat e (clock e (ticks s0) + minutes 30)))] \<and>
         (\<forall>s2. location_token_cache s2 (cache_key T L) = location_token_cache s1 (cache_key T L) \<and>
               clock e (ticks s2) < clock e (ticks s0) + minutes 30 \<longrightarrow>
               get_location_token e s2 T L = (Inr v, s2\<lparr>ticks := Suc (ticks s2)\<rparr>))"
proof -
  let ?entry = "[(''token'', v),
                 (''expires_at'', JStr (isoformat e (clock e (ticks s0) + minutes 30)))]"
  have "http_post e (length (posts s0)) (exchange_request s0 T L) = Returned r"
    using reply by (simp add: fresh_entry_request [OF miss])
  from exchange_via_supabase_ok [OF this ok body field]
  have run: "get_location_token e s T L =
      (Inr v, s0\<lparr>posts := posts s0 @ [exchange_request s0 T L], ticks := Suc (ticks s0),
                 location_token_cache := (location_token_cache s0)(cache_key T L \<mapsto> ?entry)\<rparr>)"
    by (simp add: get_location_token_miss [OF miss])
  have a: "get_location_token e s T L = (Inr v, s1)"
    by (simp add: s1 run)
  have b: "posts s1 = posts s @ [exchange_request s T L]"
    using fresh_entry_frame [OF miss] by (simp add: s1 run fresh_entry_request [OF miss])
  have c: "location_token_cache s1 (cache_key T L) = Some ?entry"
    by (simp add: s1 run)
  have d: "get_location_token e s2 T L = (Inr v, s2\<lparr>ticks := Suc (ticks s2)\<rparr>)"
    if "location_token_cache s2 (cache_key T L) = location_token_cache s1 (cache_key T L)"
      and "clock e (ticks s2) < clock e (ticks s0) + minutes 30" for s2
    using that by (intro get_location_token_hit [OF codec]) (simp_all add: c)
  from a b c d show ?thesis by blast
qed

theorem get_location_token_caches_scoped_token_witness:
  "fst (get_location_token (demo_env (granting ''scoped_1'') Map.empty) (TokenManager_init None)
          ''abc'' ''loc_9'') = Inr (JStr ''scoped_1'') \<and>
   get_location_token (demo_env (granting ''scoped_1'') Map.empty)
     (snd (get_location_token (demo_env (granting ''scoped_1'') Map.empty)
             (TokenManager_init None) ''abc'' ''loc_9''))
     ''abc'' ''loc_9'' =
     (Inr (JStr ''scoped_1''),
      (snd (get_location_token (demo_env (granting ''scoped_1'') Map.empty)
              (TokenManager_init None) ''abc'' ''loc_9''))\<lparr>ticks := 2\<rparr>)"
proof -
  let ?e = "demo_env (granting ''scoped_1'') Map.empty"
  let ?s = "TokenManager_init None"
  let ?d = "[(''access_token'', JStr ''scoped_1'')]"
  let ?s1 = "snd (get_location_token ?e ?s ''abc'' ''loc_9'')"
  have reply: "http_post ?e (length (posts ?s)) (exchange_request ?s ''abc'' ''loc_9'') =
                 Returned (ok_response ?d)"
    by (simp add: granting_def)
  have ok: "status_code (ok_response ?d) = 200"
    and body: "json_body (ok_response ?d) = Some (JObj ?d)"
    by (simp_all add: ok_response_def)
  have field: "map_of ?d ''access_token'' = Some (JStr ''scoped_1'')" by simp
  have t: "ticks ?s1 = 1" "ticks ?s = 0"
    by (simp_all add: granting_def run_defs)
  note inst = get_location_token_caches_scoped_token
    [OF demo_env_roundtrip fresh_entry_TokenManager_init(2) reply ok body field refl]
  from inst have first: "get_location_token ?e ?s ''abc'' ''loc_9'' = (Inr (JStr ''scoped_1''), ?s1)"
    by blast
  then have a: "fst (get_location_token ?e ?s ''abc'' ''loc_9'') = Inr (JStr ''scoped_1'')"
    by (metis fst_conv)
  have recent: "clock ?e (ticks ?s1) < clock ?e (ticks ?s) + minutes 30"
    by (simp add: t minutes_def)
  have next_tick: "Suc (ticks ?s1) = 2"
    by (simp add: t)
  from inst recent have "get_location_token ?e ?s1 ''abc'' ''loc_9'' =
      (Inr (JStr ''scoped_1''), ?s1\<lparr>ticks := Suc (ticks ?s1)\<rparr>)"
    by blast
  then have b: "get_location_token ?e ?s1 ''abc'' ''loc_9'' =
      (Inr (JStr ''scoped_1''), ?s1\<lparr>ticks := 2\<rparr>)"
    by (simp only: next_tick)
  from a b show ?thesis by (rule conjI)
qed

text \<open>
  C3. When the cache misses for the pair and the exchange fails (the post raises any
  exception, the endpoint answers with a status other than 200, or its body is not a JSON
  object), \<^verbatim>\<open>get_location_token\<close> does not raise: it returns the bearer token it was
  given and leaves both caches as they were. A later call for the pair that finds the cache
  entry as it was, with a clock that has not gone back, posts the exchange request again.
\<close>

theorem get_location_token_falls_back:
  assumes miss: "fresh_entry e s (location_token_cache s (cache_key T L)) = (Inr None, s0)"
    and failed: "(\<exists>x. http_post e (length (posts s)) (exchange_request s T L) = Raised x) \<or>
                 (\<exists>r. http_post e (length (posts s)) (exchange_request s T L) = Returned r \<and>
                      status_code r \<noteq> 200) \<or>
                 (\<exists>r. http_post e (length (posts s)) (exchange_request s T L) = Returned r \<and>
                      (\<forall>d. json_body r \<noteq> Some (JObj d)))"
    and s1: "s1 = snd (get_location_token e s T L)"
  shows "get_location_token e s T L = (Inr (JStr T), s1) \<and>
         location_token_cache s1 = location_token_cache s \<and>
         token_cache s1 = token_cache s \<and>
         (\<forall>s2. location_token_cache s2 (cache_key T L) = location_token_cache s1 (cache_key T L) \<and>
               clock e (ticks s) \<le> clock e (ticks s2) \<longrightarrow>
               posts (snd (get_location_token e s2 T L)) = posts s2 @ [exchange_request s2 T L])"
proof -
  have "(\<exists>x. http_post e (length (posts s0)) (exchange_request s0 T L) = Raised x) \<or>
        (\<exists>r. http_post e (length (posts s0)) (exchange_request s0 T L) = Returned r \<and>
             status_code r \<noteq> 200) \<or>
        (\<exists>r. http_post e (length (posts s0)) (exchange_request s0 T L) = Returned r \<and>
             (\<forall>d. json_body r \<noteq> Some (JObj d)))"
    using failed by (simp add: fresh_entry_request [OF miss])
  from exchange_via_supabase_failed [OF this]
  have run: "get_location_token e s T L =
      (Inr (JStr T), s0\<lparr>posts := posts s0 @ [exchange_request s0 T L]\<rparr>)"
    by (simp add: get_location_token_miss [OF miss])
  have a: "get_location_token e s T L = (Inr (JStr T), s1)"
    by (simp add: s1 run)
  have b: "location_token_cache s1 = location_token_cache s" "token_cache s1 = token_cache s"
    using fresh_entry_frame [OF miss] by (simp_all add: s1 run)
  have c: "posts (snd (get_location_token e s2 T L)) = posts s2 @ [exchange_request s2 T L]"
    if same: "location_token_cache s2 (cache_key T L) = location_token_cache s1 (cache_key T L)"
      and later: "clock e (ticks s) \<le> clock e (ticks s2)" for s2
  proof -
    have "fresh_entry e s (location_token_cache s2 (cache_key T L)) = (Inr None, s0)"
      using miss by (simp add: same b)
    from fresh_entry_miss_later [OF this later] obtain s3
      where m: "fresh_entry e s2 (location_token_cache s2 (cache_key T L)) = (Inr None, s3)"
      by blast
    show ?thesis
      using fresh_entry_frame [OF m]
      by (simp add: get_location_token_miss [OF m] exchange_via_supabase_posts
                    fresh_entry_request [OF m])
  qed
  from a b c show ?thesis by blast
qed

theorem get_location_token_falls_back_witness:
  "fst (get_location_token (demo_env (rejecting 500 ''Internal error'') Map.empty)
          (TokenManager_init None) ''abc'' ''loc_9'') = Inr (JStr ''abc'') \<and>
   location_token_cache
     (snd (get_location_token (demo_env (rejecting 500 ''Internal error'') Map.empty)
             (TokenManager_init None) ''abc'' ''loc_9'')) =
     Map.empty \<and>
   posts (snd (get_location_token (demo_env (rejecting 500 ''Internal error'') Map.empty)
                 (snd (get_location_token (demo_env (rejecting 500 ''Internal error'') Map.empty)
                         (TokenManager_init None) ''abc'' ''loc_9''))
                 ''abc'' ''loc_9'')) =
     [exchange_request (TokenManager_init None) ''abc'' ''loc_9'',
      exchange_request (TokenManager_init None) ''abc'' ''loc_9'']"
proof -
  let ?e = "demo_env (rejecting 500 ''Internal error'') Map.empty"
  let ?s = "TokenManager_init None"
  let ?s1 = "snd (get_location_token ?e ?s ''abc'' ''loc_9'')"
  have failed:
    "(\<exists>x. http_post ?e (length (posts ?s)) (exchange_request ?s ''abc'' ''loc_9'') = Raised x) \<or>
     (\<exists>r. http_post ?e (length (posts ?s)) (exchange_request ?s ''abc'' ''loc_9'') = Returned r \<and>
          status_code r \<noteq> 200) \<or>
     (\<exists>r. http_post ?e (length (posts ?s)) (exchange_request ?s ''abc'' ''loc_9'') = Returned r \<and>
          (\<forall>d. json_body r \<noteq> Some (JObj d)))"
    by (simp add: rejecting_def)
  have t: "ticks ?s1 = 0" "ticks ?s = 0" "posts ?s1 = [exchange_request ?s ''abc'' ''loc_9'']"
    "exchange_request ?s1 ''abc'' ''loc_9'' = exchange_request ?s ''abc'' ''loc_9''"
    by (simp_all add: rejecting_def run_defs)
  note inst = get_location_token_falls_back [OF fresh_entry_TokenManager_init(2) failed refl]
  from inst have first: "get_location_token ?e ?s ''abc'' ''loc_9'' = (Inr (JStr ''abc''), ?s1)"
    and caches: "location_token_cache ?s1 = location_token_cache ?s"
    by blast+
  from first have a: "fst (get_location_token ?e ?s ''abc'' ''loc_9'') = Inr (JStr ''abc'')"
    by (metis fst_conv)
  have b: "location_token_cache ?s1 = Map.empty"
    unfolding caches by (simp add: TokenManager_init_def)
  have later: "clock ?e (ticks ?s) \<le> clock ?e (ticks ?s1)"
    by (simp add: t)
  from inst later have "posts (snd (get_location_token ?e ?s1 ''abc'' ''loc_9'')) =
      posts ?s1 @ [exchange_request ?s1 ''abc'' ''loc_9'']"
    by blast
  then have c: "posts (snd (get_location_token ?e ?s1 ''abc'' ''loc_9'')) =
      [exchange_request ?s ''abc'' ''loc_9'', exchange_request ?s ''abc'' ''loc_9'']"
    by (simp only: t append.simps)
  from a b c show ?thesis by (intro conjI)
qed

text \<open>
  C8. The cache key is the string \<^verbatim>\<open>f"{bearer_token}:{location_id}"\<close>, which does not
  determine the pair when the bearer token contains a colon (without one it does, see
  \<open>cache_key_inj_no_colon\<close>). The pairs \<^verbatim>\<open>("a:b", "c")\<close> and \<^verbatim>\<open>("a", "b:c")\<close> differ and
  have the same key. With an endpoint that grants \<^verbatim>\<open>scoped_1\<close> to the first pair and
  \<^verbatim>\<open>scoped_2\<close> to the second, a call for the second pair after a call for the first
  returns \<^verbatim>\<open>scoped_1\<close>, the token cached for the first pair.
\<close>

theorem cache_key_collision:
  "(''a:b'', ''c'') \<noteq> (''a'', ''b:c'') \<and>
   cache_key ''a:b'' ''c'' = cache_key ''a'' ''b:c'' \<and>
   fst (get_location_token (demo_env scoped_reply Map.empty) (TokenManager_init None)
          ''a:b'' ''c'') = Inr (JStr ''scoped_1'') \<and>
   fst (get_location_token (demo_env scoped_reply Map.empty) (TokenManager_init None)
          ''a'' ''b:c'') = Inr (JStr ''scoped_2'') \<and>
   fst (get_location_token (demo_env scoped_reply Map.empty)
          (snd (get_location_token (demo_env scoped_reply Map.empty) (TokenManager_init None)
                  ''a:b'' ''c''))
          ''a'' ''b:c'') = Inr (JStr ''scoped_1'')"
  by (simp add: scoped_reply_def run_defs)

section \<open>Auth Dependency\<close>




text \<open>
  The key holds only the first ten characters of the token: a second bearer token with the
  same first ten characters, for the same location, gets the client built for the first,
  whose service holds the first token.
\<close>

lemma get_ghl_client_shares_client_by_token_prefix:
  "get_ghl_client (\<lambda>svc. svc)
     (snd (get_ghl_client (\<lambda>svc. svc)
             \<lparr>ghl_clients = Map.empty, token_manager = TokenManager_init None\<rparr>
             ''loc_9'' ''eyJhbGciOi.alice''))
     ''loc_9'' ''eyJhbGciOi.bob'' =
     (\<lparr>self_token = ''eyJhbGciOi.alice'', self_location_id = ''loc_9''\<rparr>,
      \<lparr>ghl_clients = [''loc_9:eyJhbGciOi'' \<mapsto>
                        \<lparr>self_token = ''eyJhbGciOi.alice'', self_location_id = ''loc_9''\<rparr>],
       token_manager = TokenManager_init None\<rparr>)"
  by (simp add: get_ghl_client_def Let_def)

end
